theory Spec2Isabelle
  imports Main "HOL-Library.Log_Nat"
begin

section \<open>The QR generator page: \<^verbatim>\<open>client/src/pages/qr-generator.tsx\<close>\<close>

text \<open>
  The page is one React component. Everything below is a translation of its functions:
  the image compressor (\<^verbatim>\<open>getBase64PayloadBytes\<close>, \<^verbatim>\<open>compressImageToSize\<close>), the content
  resolver (\<^verbatim>\<open>generateVCard\<close>, \<^verbatim>\<open>getQRContent\<close>, \<^verbatim>\<open>hasValidContent\<close>), the render and
  export routines (\<^verbatim>\<open>generateQRCode\<close>, \<^verbatim>\<open>downloadQRCode\<close>) and the event handlers of the
  image section. What the browser supplies (the JPEG encoder behind \<^verbatim>\<open>canvas.toDataURL\<close>,
  the URL parser behind \<^verbatim>\<open>new URL\<close>, the QR library) is a parameter of the model.
\<close>

subsection \<open>JavaScript numbers in the compressor\<close>

text \<open>
  \<^verbatim>\<open>quality\<close> is a JavaScript number, an IEEE 754 binary64 value, and \<^verbatim>\<open>quality - 0.05\<close>
  rounds: nine subtractions from \<^verbatim>\<open>0.5\<close> leave \<^verbatim>\<open>0.05000000000000007\<close>, which is still
  above the literal \<^verbatim>\<open>0.05\<close>, so a quality descent takes ten steps and not nine. The model
  keeps that: a number is the rational it denotes, and every arithmetic result is rounded
  to the nearest binary64 value, ties to even. The values met here lie between \<open>2\<^sup>-\<^sup>6\<^sup>0\<close>
  and \<open>2\<^sup>8\<close>, so overflow, subnormal numbers and NaN play no part and are not modelled.
\<close>

definition pow2 :: "int \<Rightarrow> rat" where
  "pow2 k = (if 0 \<le> k then 2 ^ nat k else 1 / 2 ^ nat (- k))"

text \<open>The binary exponent of a positive rational: \<open>2 ^ ilog2 x \<le> x < 2 ^ (ilog2 x + 1)\<close>.\<close>

definition ilog2 :: "rat \<Rightarrow> int" where
  "ilog2 x = (let (a, b) = quotient_of x; k = bitlen a - bitlen b
              in if pow2 k \<le> x then k else k - 1)"

definition round_ties_even :: "rat \<Rightarrow> int" where
  "round_ties_even y = (let f = \<lfloor>y\<rfloor>; r = y - of_int f
     in if r < 1 / 2 then f else if 1 / 2 < r then f + 1 else if even f then f else f + 1)"

text \<open>Rounding to 53 significant bits.\<close>

definition double_round :: "rat \<Rightarrow> rat" where
  "double_round x = (if x = 0 then 0
     else let u = pow2 (ilog2 \<bar>x\<bar> - 52)
          in sgn x * of_int (round_ties_even (\<bar>x\<bar> / u)) * u)"

definition double_sub :: "rat \<Rightarrow> rat \<Rightarrow> rat" where
  "double_sub x y = double_round (x - y)"

definition double_mul :: "rat \<Rightarrow> rat \<Rightarrow> rat" where
  "double_mul x y = double_round (x * y)"

text \<open>The literals \<^verbatim>\<open>0.05\<close> and \<^verbatim>\<open>0.9\<close>; \<^verbatim>\<open>0.5\<close> is exactly \<open>1 / 2\<close>.\<close>

definition lit_0_05 :: rat where
  "lit_0_05 = double_round (1 / 20)"

definition lit_0_9 :: rat where
  "lit_0_9 = double_round (9 / 10)"

subsection \<open>The payload size of a data URL\<close>

text \<open>
  Strings are lists of code units; data URLs are ASCII. \<^verbatim>\<open>s.indexOf(p)\<close> is the position of
  the first occurrence of \<^verbatim>\<open>p\<close>, and \<^verbatim>\<open>-1\<close> (here \<open>None\<close>) when there is none.
\<close>

fun indexOf :: "string \<Rightarrow> string \<Rightarrow> nat option" where
  "indexOf [] p = (if p = [] then Some 0 else None)"
| "indexOf (c # cs) p =
     (if take (length p) (c # cs) = p then Some 0 else map_option Suc (indexOf cs p))"

definition getBase64PayloadBytes :: "string \<Rightarrow> nat" where
  "getBase64PayloadBytes dataUrl =
     (case indexOf dataUrl ''base64,'' of
        None \<Rightarrow> length dataUrl
      | Some base64Index \<Rightarrow>
          let base64Data = drop (base64Index + 7) dataUrl;
              padding = length (filter (\<lambda>c. c = CHR ''='') base64Data)
          in ((length base64Data - padding) * 3) div 4)"

subsection \<open>The compression loop\<close>

text \<open>
  The loop's variables. \<^verbatim>\<open>compress\<close> reschedules itself with \<^verbatim>\<open>setTimeout\<close>; nothing else
  touches its variables in between, so the loop is a recursive function of them. It
  returns how the promise ends and, for the claims about the search, the list of the
  states it went through, one per attempt (taken right after \<^verbatim>\<open>attempts++\<close>).
\<close>

record attempt_state =
  width :: nat
  height :: nat
  quality :: rat
  attempts :: nat

datatype compress_error =
    ImageTooLarge nat nat  \<comment> \<open>payload bytes, limit: the "Image too large" error\<close>
  | FailedToLoadImage

text \<open>
  \<open>Pending\<close>: the promise is never settled. The source leaves it so when
  \<^verbatim>\<open>canvas.getContext('2d')\<close> is \<^verbatim>\<open>null\<close>: the body of \<^verbatim>\<open>compress\<close> is under \<^verbatim>\<open>if (ctx)\<close>
  and has no other branch.
\<close>

datatype promise = Resolved string | Rejected compress_error | Pending

definition maxAttempts :: nat where
  "maxAttempts = 50"

text \<open>Lines 152 to 158, "reduce size/quality and try again".\<close>

definition tighten :: "attempt_state \<Rightarrow> attempt_state" where
  "tighten s =
     (if lit_0_05 < quality s
      then s\<lparr>quality := max lit_0_05 (double_sub (quality s) lit_0_05)\<rparr>
      else s\<lparr>width := max 24 (nat \<lfloor>double_mul (of_nat (width s)) lit_0_9\<rfloor>),
             height := max 24 (nat \<lfloor>double_mul (of_nat (height s)) lit_0_9\<rfloor>),
             quality := 1 / 2\<rparr>)"

text \<open>
  \<open>ctx\<close> says whether the canvas gave a 2D context, \<open>toDataURL w h q\<close> is the JPEG data URL
  of the image drawn at \<open>w\<close> by \<open>h\<close> and encoded at quality \<open>q\<close>.
\<close>

function compress ::
  "bool \<Rightarrow> (nat \<Rightarrow> nat \<Rightarrow> rat \<Rightarrow> string) \<Rightarrow> nat \<Rightarrow> attempt_state
     \<Rightarrow> promise \<times> attempt_state list" where
  "compress ctx toDataURL maxSizeBytes s0 =
     (let s = s0\<lparr>attempts := attempts s0 + 1\<rparr> in
      if \<not> ctx then (Pending, [s])
      else
        let dataUrl = toDataURL (width s) (height s) (quality s);
            payloadBytes = getBase64PayloadBytes dataUrl
        in if payloadBytes \<le> maxSizeBytes \<or> maxAttempts \<le> attempts s
              \<or> (width s \<le> 24 \<and> quality s \<le> lit_0_05)
           then (if maxSizeBytes < payloadBytes
                 then Rejected (ImageTooLarge payloadBytes maxSizeBytes)
                 else Resolved dataUrl, [s])
           else apsnd ((#) s) (compress ctx toDataURL maxSizeBytes (tighten s)))"
  by pat_completeness auto
termination
  by (relation "measure (\<lambda>(ctx, toDataURL, maxSizeBytes, s0). maxAttempts - attempts s0)")
     (auto simp: tighten_def)

declare compress.simps [simp del]

text \<open>
  \<open>img\<close> is the decoded image's size, \<open>None\<close> when the browser fires \<^verbatim>\<open>onerror\<close>.
\<close>

definition compressImageToSize ::
  "bool \<Rightarrow> (nat \<times> nat) option \<Rightarrow> (nat \<Rightarrow> nat \<Rightarrow> rat \<Rightarrow> string) \<Rightarrow> nat
     \<Rightarrow> promise \<times> attempt_state list" where
  "compressImageToSize ctx img toDataURL maxSizeBytes =
     (case img of
        None \<Rightarrow> (Rejected FailedToLoadImage, [])
      | Some (w, h) \<Rightarrow>
          compress ctx toDataURL maxSizeBytes
            \<lparr>width = min w 128, height = min h 128, quality = 1 / 2, attempts = 0\<rparr>)"

text \<open>The two results of \<open>compressImageToSize\<close> by name.\<close>

abbreviation outcome_of ::
  "bool \<Rightarrow> (nat \<times> nat) option \<Rightarrow> (nat \<Rightarrow> nat \<Rightarrow> rat \<Rightarrow> string) \<Rightarrow> nat \<Rightarrow> promise" where
  "outcome_of ctx img toDataURL maxSizeBytes \<equiv>
     fst (compressImageToSize ctx img toDataURL maxSizeBytes)"

abbreviation explored ::
  "bool \<Rightarrow> (nat \<times> nat) option \<Rightarrow> (nat \<Rightarrow> nat \<Rightarrow> rat \<Rightarrow> string) \<Rightarrow> nat
     \<Rightarrow> attempt_state list" where
  "explored ctx img toDataURL maxSizeBytes \<equiv>
     snd (compressImageToSize ctx img toDataURL maxSizeBytes)"

text \<open>
  Two encoders for the examples. The first gives the same three payload bytes at every
  size and quality; the second gives one byte once the width is 27 or less.
\<close>

definition three_bytes :: "nat \<Rightarrow> nat \<Rightarrow> rat \<Rightarrow> string" where
  "three_bytes w h q = ''data:image/jpeg;base64,AAAA''"

definition small_from_27 :: "nat \<Rightarrow> nat \<Rightarrow> rat \<Rightarrow> string" where
  "small_from_27 w h q =
     (if w \<le> 27 then ''data:image/jpeg;base64,AA=='' else ''data:image/jpeg;base64,AAAA'')"

text \<open>
  Names for the parts of one pass through \<^verbatim>\<open>compress\<close>: the state after \<^verbatim>\<open>attempts++\<close>,
  the payload size of the attempt, and the test of line 142.
\<close>

definition next_attempt :: "attempt_state \<Rightarrow> attempt_state" where
  "next_attempt s0 = s0\<lparr>attempts := attempts s0 + 1\<rparr>"

definition payload_at :: "(nat \<Rightarrow> nat \<Rightarrow> rat \<Rightarrow> string) \<Rightarrow> attempt_state \<Rightarrow> nat" where
  "payload_at enc s = getBase64PayloadBytes (enc (width s) (height s) (quality s))"

definition stops :: "(nat \<Rightarrow> nat \<Rightarrow> rat \<Rightarrow> string) \<Rightarrow> nat \<Rightarrow> attempt_state \<Rightarrow> bool" where
  "stops enc m s \<longleftrightarrow> payload_at enc s \<le> m \<or> maxAttempts \<le> attempts s
      \<or> (width s \<le> 24 \<and> quality s \<le> lit_0_05)"

subsection \<open>The component's state\<close>

datatype InputType = TextInput | UrlInput | ContactInput | ImageInput

datatype ImageMode = LinkMode | EmbedMode

datatype ExportFormat = PNG | JPEG | SVG

record ContactInfo =
  name :: string
  phone :: string
  email :: string
  organization :: string

text \<open>
  A \<^verbatim>\<open>File\<close> object. React compares state values by identity, so the object's identity
  is a field of its own.
\<close>

record File =
  file_id :: nat
  file_name :: string
  file_type :: string
  file_size :: nat

text \<open>The \<^verbatim>\<open>useState\<close> variables of \<^verbatim>\<open>QRGenerator\<close>, under their names.\<close>

record qr_state =
  inputType :: InputType
  textContent :: string
  urlContent :: string
  contactInfo :: ContactInfo
  qrColor :: string
  bgColor :: string
  qrSize :: nat
  exportFormat :: ExportFormat
  exportResolution :: nat
  qrCodeGenerated :: bool
  urlError :: string
  imageMode :: ImageMode
  imageUrl :: string
  imageFile :: "File option"
  imagePreview :: string
  embedDataUrl :: string
  imageUrlError :: string
  imageFileError :: string
  isCompressing :: bool

definition initial_state :: qr_state where
  "initial_state =
     \<lparr>inputType = TextInput, textContent = [], urlContent = [],
      contactInfo = \<lparr>name = [], phone = [], email = [], organization = []\<rparr>,
      qrColor = ''#000000'', bgColor = ''#ffffff'', qrSize = 300,
      exportFormat = PNG, exportResolution = 300, qrCodeGenerated = False, urlError = [],
      imageMode = LinkMode, imageUrl = [], imageFile = None, imagePreview = [],
      embedDataUrl = [], imageUrlError = [], imageFileError = [], isCompressing = False\<rparr>"

text \<open>The options object passed to the QR library; of its levels the page uses L and M.\<close>

datatype ErrorCorrectionLevel = ECL_L | ECL_M

record QROptions =
  qr_width :: nat
  qr_margin :: nat
  errorCorrectionLevel :: ErrorCorrectionLevel
  color_dark :: string
  color_light :: string

text \<open>
  What the browser and the QR library decide. \<open>url_parses u\<close>: \<^verbatim>\<open>new URL(u)\<close> does not
  throw. \<open>canvas_mounted\<close>: \<^verbatim>\<open>canvasRef.current\<close> is set; \<open>canvas_ctx\<close>: its
  \<^verbatim>\<open>getContext('2d')\<close> is not \<^verbatim>\<open>null\<close>. \<open>qr_renders c o\<close>: \<^verbatim>\<open>QRCode.toCanvas\<close> or
  \<^verbatim>\<open>QRCode.toString\<close> on content \<open>c\<close> with options \<open>o\<close> does not throw. \<open>decode f\<close>: the size
  of file \<open>f\<close> as an image, \<open>None\<close> when it does not load; \<open>encode f\<close>: its JPEG data URLs;
  \<open>compress_ctx\<close>: the compressor's canvas gave a 2D context. \<open>createObjectURL f\<close>: the
  preview URL of \<open>f\<close>.
\<close>

record browser =
  url_parses :: "string \<Rightarrow> bool"
  canvas_mounted :: bool
  canvas_ctx :: bool
  qr_renders :: "string \<Rightarrow> QROptions \<Rightarrow> bool"
  decode :: "File \<Rightarrow> (nat \<times> nat) option"
  encode :: "File \<Rightarrow> nat \<Rightarrow> nat \<Rightarrow> rat \<Rightarrow> string"
  compress_ctx :: bool
  createObjectURL :: "File \<Rightarrow> string"

subsection \<open>The content resolver\<close>

text \<open>
  \<^verbatim>\<open>String.prototype.trim\<close> strips white space and line terminators from both ends. A
  code unit is a \<open>char\<close> here, so the model covers the code units up to \<^verbatim>\<open>U+00FF\<close>; of
  those, tab, line feed, vertical tab, form feed, carriage return, space and no-break
  space are stripped.
\<close>

definition is_space :: "char \<Rightarrow> bool" where
  "is_space c \<longleftrightarrow> (of_char c :: nat) \<in> {9, 10, 11, 12, 13, 32, 160}"

definition trim :: "string \<Rightarrow> string" where
  "trim s = rev (dropWhile is_space (rev (dropWhile is_space s)))"

definition generateVCard :: "ContactInfo \<Rightarrow> string" where
  "generateVCard contact =
     ''BEGIN:VCARD\<newline>VERSION:3.0\<newline>''
     @ (if name contact \<noteq> [] then ''FN:'' @ name contact @ ''\<newline>'' else [])
     @ (if organization contact \<noteq> [] then ''ORG:'' @ organization contact @ ''\<newline>'' else [])
     @ (if phone contact \<noteq> [] then ''TEL:'' @ phone contact @ ''\<newline>'' else [])
     @ (if email contact \<noteq> [] then ''EMAIL:'' @ email contact @ ''\<newline>'' else [])
     @ ''END:VCARD''"

definition getQRContent :: "qr_state \<Rightarrow> string" where
  "getQRContent s =
     (case inputType s of
        TextInput \<Rightarrow> trim (textContent s)
      | UrlInput \<Rightarrow> trim (urlContent s)
      | ContactInput \<Rightarrow> generateVCard (contactInfo s)
      | ImageInput \<Rightarrow>
          (if imageMode s = LinkMode then trim (imageUrl s) else embedDataUrl s))"

definition isValidURL :: "browser \<Rightarrow> string \<Rightarrow> bool" where
  "isValidURL env url = (if trim url = [] then False else url_parses env url)"

definition hasValidContent :: "browser \<Rightarrow> qr_state \<Rightarrow> bool" where
  "hasValidContent env s =
     (case inputType s of
        TextInput \<Rightarrow> 0 < length (trim (textContent s))
      | UrlInput \<Rightarrow> 0 < length (trim (urlContent s)) \<and> isValidURL env (urlContent s)
      | ContactInput \<Rightarrow>
          0 < length (trim (name (contactInfo s)))
          \<or> 0 < length (trim (phone (contactInfo s)))
          \<or> 0 < length (trim (email (contactInfo s)))
      | ImageInput \<Rightarrow>
          (if imageMode s = LinkMode
           then 0 < length (trim (imageUrl s)) \<and> imageUrlError s = []
           else 0 < length (embedDataUrl s) \<and> \<not> isCompressing s \<and> imageFileError s = []))"

subsection \<open>Rendering and export\<close>

text \<open>
  What a routine does to the outside, in order: clearing the display canvas, a call of
  the QR encoder (into the display canvas or a temporary one, or to an SVG string), a
  toast (by its title), a line on the console, a download (by its file name).
\<close>

datatype canvas = DisplayCanvas | TempCanvas

datatype effect =
    ClearRect
  | ToCanvas canvas string QROptions
  | ToString string QROptions
  | Toast string
  | ConsoleError string
  | Download string

definition generateQRCode :: "browser \<Rightarrow> qr_state \<Rightarrow> effect list \<times> qr_state" where
  "generateQRCode env s =
     (let content = getQRContent s in
      if content = [] \<or> \<not> hasValidContent env s
      then (if canvas_mounted env \<and> canvas_ctx env then [ClearRect] else [],
            s\<lparr>qrCodeGenerated := False\<rparr>)
      else if canvas_mounted env
      then
        let options =
              \<lparr>qr_width = qrSize s, qr_margin = 2,
               errorCorrectionLevel =
                 (if inputType s = ImageInput \<and> imageMode s = EmbedMode then ECL_L else ECL_M),
               color_dark = qrColor s, color_light = bgColor s\<rparr>
        in if qr_renders env content options
           then ([ToCanvas DisplayCanvas content options], s\<lparr>qrCodeGenerated := True\<rparr>)
           else ([ToCanvas DisplayCanvas content options,
                  ConsoleError ''QR Code generation failed:'', Toast ''Generation Failed''], s)
      else ([], s))"

definition downloadQRCode :: "browser \<Rightarrow> qr_state \<Rightarrow> effect list" where
  "downloadQRCode env s =
     (if \<not> qrCodeGenerated s then [Toast ''No QR Code'']
      else
        let content = getQRContent s in
        if content = [] then []
        else
          let options =
                \<lparr>qr_width = exportResolution s, qr_margin = 2,
                 errorCorrectionLevel =
                   (if inputType s = ImageInput \<and> imageMode s = EmbedMode then ECL_L else ECL_M),
                 color_dark = qrColor s, color_light = bgColor s\<rparr>;
              failed = [ConsoleError ''Download failed:'', Toast ''Download Failed'']
          in case exportFormat s of
               SVG \<Rightarrow>
                 ToString content options #
                 (if qr_renders env content options
                  then [Download ''qrcode.svg'', Toast ''Download Complete''] else failed)
             | JPEG \<Rightarrow>
                 if \<not> canvas_mounted env then []
                 else ToCanvas TempCanvas content options #
                      (if qr_renders env content options
                       then [Download ''qrcode.jpg'', Toast ''Download Complete''] else failed)
             | PNG \<Rightarrow>
                 if \<not> canvas_mounted env then []
                 else if exportResolution s \<noteq> qrSize s
                 then ToCanvas TempCanvas content options #
                      (if qr_renders env content options
                       then [Download ''qrcode.png'', Toast ''Download Complete''] else failed)
                 else [Download ''qrcode.png'', Toast ''Download Complete''])"

text \<open>The calls of the QR encoder among the effects: content and options.\<close>

fun encoder_calls :: "effect list \<Rightarrow> (string \<times> QROptions) list" where
  "encoder_calls [] = []"
| "encoder_calls (ToCanvas c content options # es) = (content, options) # encoder_calls es"
| "encoder_calls (ToString content options # es) = (content, options) # encoder_calls es"
| "encoder_calls (e # es) = encoder_calls es"

subsection \<open>Selecting and compressing a file\<close>

text \<open>A number inside a template literal: its decimal digits.\<close>

fun digits :: "nat \<Rightarrow> string" where
  "digits n =
     (if n < 10 then [char_of (48 + n)] else digits (n div 10) @ [char_of (48 + n mod 10)])"

declare digits.simps [simp del]

definition error_message :: "compress_error \<Rightarrow> string" where
  "error_message e =
     (case e of
        ImageTooLarge payloadBytes maxSizeBytes \<Rightarrow>
          ''Image too large for QR embedding ('' @ digits payloadBytes @ '' bytes > ''
          @ digits maxSizeBytes @ '' bytes limit). Please use Link mode instead.''
      | FailedToLoadImage \<Rightarrow> ''Failed to load image'')"

definition startsWith :: "string \<Rightarrow> string \<Rightarrow> bool" where
  "startsWith s p \<longleftrightarrow> take (length p) s = p"

text \<open>
  \<^verbatim>\<open>processImageFile\<close> is an \<^verbatim>\<open>async\<close> function with one \<^verbatim>\<open>await\<close>, on the compressor's
  promise. \<open>processImageFile_begin\<close> is the part that runs at the call, up to the
  \<^verbatim>\<open>await\<close>; its second result says whether a compression was started.
  \<open>processImageFile_resume\<close> is the part that runs when the promise settles, on the state
  of that moment: a \<^verbatim>\<open>setState\<close> call writes the current state, whatever the state was when
  the function was called. The calls of \<^verbatim>\<open>URL.revokeObjectURL\<close>, the toast and the console
  line change no state and are left out, and so is the outer \<^verbatim>\<open>catch\<close>: the calls it guards
  (\<^verbatim>\<open>URL.createObjectURL\<close> on a \<^verbatim>\<open>File\<close>, the state setters) do not throw.
\<close>

definition processImageFile_begin :: "browser \<Rightarrow> File \<Rightarrow> qr_state \<Rightarrow> qr_state \<times> bool" where
  "processImageFile_begin env file s =
     (let s1 = s\<lparr>imageFileError := [], isCompressing := False\<rparr> in
      if \<not> startsWith (file_type file) ''image/''
      then (s1\<lparr>imageFileError := ''Please select an image file''\<rparr>, False)
      else if 5 * 1024 * 1024 < file_size file
      then (s1\<lparr>imageFileError := ''Image must be smaller than 5MB''\<rparr>, False)
      else
        let s2 = s1\<lparr>imagePreview := createObjectURL env file, imageFile := Some file\<rparr>
        in if imageMode s = EmbedMode then (s2\<lparr>isCompressing := True\<rparr>, True)
           else (s2, False))"

text \<open>\<^verbatim>\<open>compressImageToSize(file, 1000)\<close>, as the browser \<open>env\<close> runs it.\<close>

definition compression_of :: "browser \<Rightarrow> File \<Rightarrow> promise" where
  "compression_of env file =
     fst (compressImageToSize (compress_ctx env) (decode env file) (encode env file) 1000)"

definition processImageFile_resume :: "promise \<Rightarrow> qr_state \<Rightarrow> qr_state" where
  "processImageFile_resume outcome s =
     (case outcome of
        Resolved compressedDataUrl \<Rightarrow>
          s\<lparr>embedDataUrl := compressedDataUrl, isCompressing := False\<rparr>
      | Rejected compressionError \<Rightarrow>
          s\<lparr>imageFileError := error_message compressionError, isCompressing := False,
            embedDataUrl := []\<rparr>
      | Pending \<Rightarrow> s)"

subsection \<open>Events\<close>

text \<open>
  The running page: the state, and the files whose compression has been started and has
  not settled yet. An event is a handler of the JSX, or the settling of a compression.
\<close>

record app =
  ui :: qr_state
  inflight :: "File list"

datatype event =
    ClickType InputType
  | TypeText string
  | TypeUrl string
  | EditName string
  | EditPhone string
  | EditEmail string
  | EditOrganization string
  | ClickLinkMode
  | ClickEmbedMode
  | TypeImageUrl string
  | BlurImageUrl
  | ChooseFile File
  | DropFile File
  | PickQrColor string
  | PickBgColor string
  | ClickSize nat
  | ClickGenerate
  | ClickDownload
  | CompressionSettles File

text \<open>
  The message that \<^verbatim>\<open>validateURL\<close> stores in \<^verbatim>\<open>urlError\<close> and that \<^verbatim>\<open>validateImageURL\<close>
  returns as \<^verbatim>\<open>error\<close>: the two functions compute it the same way.
\<close>

definition url_error :: "browser \<Rightarrow> string \<Rightarrow> string" where
  "url_error env url =
     (if trim url = [] then []
      else if url_parses env url then [] else ''Please enter a valid URL'')"

definition start_processing :: "browser \<Rightarrow> File \<Rightarrow> app \<Rightarrow> app" where
  "start_processing env file a =
     (let (s, started) = processImageFile_begin env file (ui a)
      in \<lparr>ui = s, inflight = (if started then inflight a @ [file] else inflight a)\<rparr>)"

definition handler :: "browser \<Rightarrow> event \<Rightarrow> app \<Rightarrow> app" where
  "handler env ev a =
     (let s = ui a in
      case ev of
        ClickType t \<Rightarrow> a\<lparr>ui := s\<lparr>inputType := t\<rparr>\<rparr>
      | TypeText v \<Rightarrow> a\<lparr>ui := s\<lparr>textContent := v\<rparr>\<rparr>
      | TypeUrl v \<Rightarrow> a\<lparr>ui := s\<lparr>urlContent := v\<rparr>\<rparr>
      | EditName v \<Rightarrow> a\<lparr>ui := s\<lparr>contactInfo := (contactInfo s)\<lparr>name := v\<rparr>\<rparr>\<rparr>
      | EditPhone v \<Rightarrow> a\<lparr>ui := s\<lparr>contactInfo := (contactInfo s)\<lparr>phone := v\<rparr>\<rparr>\<rparr>
      | EditEmail v \<Rightarrow> a\<lparr>ui := s\<lparr>contactInfo := (contactInfo s)\<lparr>email := v\<rparr>\<rparr>\<rparr>
      | EditOrganization v \<Rightarrow>
          a\<lparr>ui := s\<lparr>contactInfo := (contactInfo s)\<lparr>organization := v\<rparr>\<rparr>\<rparr>
      | ClickLinkMode \<Rightarrow>
          a\<lparr>ui := s\<lparr>imageMode := LinkMode, imageFile := None, imagePreview := [],
                     embedDataUrl := [], imageFileError := []\<rparr>\<rparr>
      | ClickEmbedMode \<Rightarrow>
          a\<lparr>ui := s\<lparr>imageMode := EmbedMode, imageUrl := [], imageUrlError := []\<rparr>\<rparr>
      | TypeImageUrl v \<Rightarrow> a\<lparr>ui := s\<lparr>imageUrl := v\<rparr>\<rparr>
      | BlurImageUrl \<Rightarrow>
          a\<lparr>ui := s\<lparr>imageUrlError := url_error env (imageUrl s)\<rparr>\<rparr>
      | ChooseFile file \<Rightarrow> start_processing env file a
      | DropFile file \<Rightarrow>
          if startsWith (file_type file) ''image/'' then start_processing env file a else a
      | PickQrColor v \<Rightarrow> a\<lparr>ui := s\<lparr>qrColor := v\<rparr>\<rparr>
      | PickBgColor v \<Rightarrow> a\<lparr>ui := s\<lparr>bgColor := v\<rparr>\<rparr>
      | ClickSize n \<Rightarrow> a\<lparr>ui := s\<lparr>qrSize := n\<rparr>\<rparr>
      | ClickGenerate \<Rightarrow> a\<lparr>ui := snd (generateQRCode env s)\<rparr>
      | ClickDownload \<Rightarrow> a
      | CompressionSettles file \<Rightarrow>
          \<lparr>ui = processImageFile_resume (compression_of env file) s,
           inflight = remove1 file (inflight a)\<rparr>)"

text \<open>
  The \<^verbatim>\<open>useEffect\<close> hooks, in the order of the source. After a render React runs each hook
  whose dependencies differ from the render before (\<open>old\<close>); every hook reads the state
  \<open>s\<close> of its render, and the hooks write different variables, so they are applied one
  after the other. The states they write are dependencies of no hook, so one round is
  all that runs. The hook of lines 452 to 456 calls \<^verbatim>\<open>processImageFile\<close> on the selected
  file.
\<close>

definition effects :: "browser \<Rightarrow> qr_state \<Rightarrow> app \<Rightarrow> app" where
  "effects env old a =
     (let s = ui a;
          a1 = (if (textContent s, urlContent s, contactInfo s, imageUrl s, embedDataUrl s,
                    qrColor s, bgColor s, qrSize s, inputType s, imageMode s)
                   \<noteq> (textContent old, urlContent old, contactInfo old, imageUrl old,
                      embedDataUrl old, qrColor old, bgColor old, qrSize old, inputType old,
                      imageMode old)
                then a\<lparr>ui := (ui a)\<lparr>qrCodeGenerated :=
                                      qrCodeGenerated (snd (generateQRCode env s))\<rparr>\<rparr>
                else a);
          a2 = (if (urlContent s, inputType s) \<noteq> (urlContent old, inputType old)
                   \<and> inputType s = UrlInput
                then a1\<lparr>ui := (ui a1)\<lparr>urlError := url_error env (urlContent s)\<rparr>\<rparr>
                else a1);
          a3 = (if (imageUrl s, inputType s, imageMode s)
                     \<noteq> (imageUrl old, inputType old, imageMode old)
                   \<and> inputType s = ImageInput \<and> imageMode s = LinkMode
                then a2\<lparr>ui := (ui a2)\<lparr>imageUrlError :=
                                        url_error env (imageUrl s)\<rparr>\<rparr>
                else a2)
      in case imageFile s of
           Some file \<Rightarrow>
             if (imageMode s, imageFile s) \<noteq> (imageMode old, imageFile old)
                \<and> inputType s = ImageInput \<and> imageMode s = EmbedMode \<and> embedDataUrl s = []
             then start_processing env file a3 else a3
         | None \<Rightarrow> a3)"

text \<open>
  What the render hook of lines 426 to 428 does to the outside after a render with state
  \<open>s\<close> that follows one with state \<open>old\<close>: it calls \<^verbatim>\<open>generateQRCode\<close> when one of its
  dependencies has changed.
\<close>

definition render_hook :: "browser \<Rightarrow> qr_state \<Rightarrow> qr_state \<Rightarrow> effect list" where
  "render_hook env old s =
     (if (textContent s, urlContent s, contactInfo s, imageUrl s, embedDataUrl s,
          qrColor s, bgColor s, qrSize s, inputType s, imageMode s)
         \<noteq> (textContent old, urlContent old, contactInfo old, imageUrl old,
            embedDataUrl old, qrColor old, bgColor old, qrSize old, inputType old,
            imageMode old)
      then fst (generateQRCode env s) else [])"

definition step :: "browser \<Rightarrow> event \<Rightarrow> app \<Rightarrow> app" where
  "step env ev a = effects env (ui a) (handler env ev a)"

fun run :: "browser \<Rightarrow> event list \<Rightarrow> app \<Rightarrow> app" where
  "run env [] a = a"
| "run env (ev # evs) a = run env evs (step env ev a)"

text \<open>
  When an event can happen: its control is rendered and not disabled, and a compression
  settles only while it is in flight and its promise does settle.
\<close>

definition enabled :: "browser \<Rightarrow> app \<Rightarrow> event \<Rightarrow> bool" where
  "enabled env a ev =
     (let s = ui a in
      case ev of
        TypeText v \<Rightarrow> inputType s = TextInput
      | TypeUrl v \<Rightarrow> inputType s = UrlInput
      | EditName v \<Rightarrow> inputType s = ContactInput
      | EditPhone v \<Rightarrow> inputType s = ContactInput
      | EditEmail v \<Rightarrow> inputType s = ContactInput
      | EditOrganization v \<Rightarrow> inputType s = ContactInput
      | ClickLinkMode \<Rightarrow> inputType s = ImageInput
      | ClickEmbedMode \<Rightarrow> inputType s = ImageInput
      | TypeImageUrl v \<Rightarrow> inputType s = ImageInput \<and> imageMode s = LinkMode
      | BlurImageUrl \<Rightarrow> inputType s = ImageInput \<and> imageMode s = LinkMode
      | ChooseFile file \<Rightarrow> inputType s = ImageInput \<and> imageMode s = EmbedMode
      | DropFile file \<Rightarrow> inputType s = ImageInput \<and> imageMode s = EmbedMode
      | ClickSize n \<Rightarrow> n \<in> {200, 300, 400}
      | ClickGenerate \<Rightarrow> hasValidContent env s
      | ClickDownload \<Rightarrow> qrCodeGenerated s
      | CompressionSettles file \<Rightarrow>
          file \<in> set (inflight a) \<and> compression_of env file \<noteq> Pending
      | _ \<Rightarrow> True)"

fun feasible :: "browser \<Rightarrow> event list \<Rightarrow> app \<Rightarrow> bool" where
  "feasible env [] a = True"
| "feasible env (ev # evs) a = (enabled env a ev \<and> feasible env evs (step env ev a))"

definition selects_file :: "event \<Rightarrow> bool" where
  "selects_file ev = (case ev of ChooseFile f \<Rightarrow> True | DropFile f \<Rightarrow> True | _ \<Rightarrow> False)"

definition settles :: "event \<Rightarrow> bool" where
  "settles ev = (case ev of CompressionSettles f \<Rightarrow> True | _ \<Rightarrow> False)"

text \<open>No embed payload and no selected file.\<close>

definition payload_less :: "app \<Rightarrow> bool" where
  "payload_less a \<longleftrightarrow> embedDataUrl (ui a) = [] \<and> imageFile (ui a) = None"

definition initial_app :: app where
  "initial_app = \<lparr>ui = initial_state, inflight = []\<rparr>"

subsection \<open>Lines of a text\<close>

text \<open>The lines of a text, as \<^verbatim>\<open>text.split('\n')\<close> gives them.\<close>

fun split_lines :: "string \<Rightarrow> string list" where
  "split_lines [] = [[]]"
| "split_lines (c # cs) =
     (if c = CHR 0x0A then [] # split_lines cs
      else case split_lines cs of [] \<Rightarrow> [[c]] | l # ls \<Rightarrow> (c # l) # ls)"


subsection \<open>A browser and two files for the examples\<close>

text \<open>
  A browser in which \<^verbatim>\<open>new URL\<close> accepts what starts with \<^verbatim>\<open>https://\<close>, the canvas is
  there, the QR library never fails, every file is a 64 by 64 image and the JPEG of file 1
  is \<^verbatim>\<open>AAAA\<close>, of any other file \<^verbatim>\<open>BBBB\<close>, at every size and quality.
\<close>

definition example_browser :: browser where
  "example_browser =
     \<lparr>url_parses = (\<lambda>u. startsWith u ''https://''),
      canvas_mounted = True, canvas_ctx = True,
      qr_renders = (\<lambda>content options. True),
      decode = (\<lambda>f. Some (64, 64)),
      encode = (\<lambda>f w h q. if file_id f = 1 then ''data:image/jpeg;base64,AAAA''
                            else ''data:image/jpeg;base64,BBBB''),
      compress_ctx = True,
      createObjectURL = (\<lambda>f. ''blob:'' @ file_name f)\<rparr>"

definition fileA :: File where
  "fileA = \<lparr>file_id = 1, file_name = ''a.png'', file_type = ''image/png'', file_size = 2048\<rparr>"

definition fileB :: File where
  "fileB = \<lparr>file_id = 2, file_name = ''b.png'', file_type = ''image/png'', file_size = 4096\<rparr>"

text \<open>
  Example states and event sequences. \<open>embed_with_payload\<close>: embed mode, file A selected
  and compressed, nothing in flight. \<open>compressing_A_and_B\<close>: file B selected while the
  compressions of A and B are both in flight. \<open>late_switch\<close>: the user selects A in embed
  mode, clicks "Link to URL", A's compression settles, the user clicks "Upload and
  Embed". \<open>out_of_order\<close>: the user selects A, then B; the compressions of B settle before
  those of A (each selection starts two, one from the handler and one from the hook of
  lines 452 to 456).
\<close>

definition embed_with_payload :: app where
  "embed_with_payload =
     \<lparr>ui = initial_state\<lparr>inputType := ImageInput, imageMode := EmbedMode,
             imageFile := Some fileA, imagePreview := ''blob:a.png'',
             embedDataUrl := ''data:image/jpeg;base64,AAAA''\<rparr>,
      inflight = []\<rparr>"

definition compressing_A_and_B :: app where
  "compressing_A_and_B =
     \<lparr>ui = initial_state\<lparr>inputType := ImageInput, imageMode := EmbedMode,
             imageFile := Some fileB, imagePreview := ''blob:b.png'',
             isCompressing := True\<rparr>,
      inflight = [fileA, fileB]\<rparr>"

definition late_switch :: "event list" where
  "late_switch =
     [ClickType ImageInput, ClickEmbedMode, ChooseFile fileA, ClickLinkMode,
      CompressionSettles fileA, ClickEmbedMode]"

definition out_of_order :: "event list" where
  "out_of_order =
     [ClickType ImageInput, ClickEmbedMode, ChooseFile fileA, ChooseFile fileB,
      CompressionSettles fileB, CompressionSettles fileB,
      CompressionSettles fileA, CompressionSettles fileA]"

text \<open>
  \<open>image_link_page\<close>: the page after a click on "Image", in link mode with an empty URL
  field.
\<close>

definition image_link_page :: app where
  "image_link_page = step example_browser (ClickType ImageInput) initial_app"

section \<open>Properties\<close>

subsection \<open>Rounding\<close>







lemma lit_0_05_val: "lit_0_05 = 3602879701896397 / 72057594037927936"
  unfolding lit_0_05_def by code_simp

lemma lit_0_9_val: "lit_0_9 = 8106479329266893 / 9007199254740992"
  unfolding lit_0_9_def by code_simp




subsection \<open>The compression loop\<close>

lemma compress_no_ctx: "compress False enc m s0 = (Pending, [next_attempt s0])"
  by (subst compress.simps) (simp add: Let_def next_attempt_def)

lemma compress_stop:
  "stops enc m (next_attempt s0) \<Longrightarrow>
   compress True enc m s0 =
     (if m < payload_at enc (next_attempt s0)
      then Rejected (ImageTooLarge (payload_at enc (next_attempt s0)) m)
      else Resolved (enc (width s0) (height s0) (quality s0)), [next_attempt s0])"
  by (subst compress.simps) (auto simp: Let_def next_attempt_def stops_def payload_at_def)

lemma compress_continue:
  "\<not> stops enc m (next_attempt s0) \<Longrightarrow>
   compress True enc m s0 =
     apsnd ((#) (next_attempt s0)) (compress True enc m (tighten (next_attempt s0)))"
  by (subst compress.simps) (auto simp: Let_def next_attempt_def stops_def payload_at_def)

lemma compress_induct_ctx [case_names stop continue]:
  assumes stop: "\<And>s0. stops enc m (next_attempt s0) \<Longrightarrow> P s0"
    and continue: "\<And>s0. \<not> stops enc m (next_attempt s0) \<Longrightarrow> P (tighten (next_attempt s0)) \<Longrightarrow> P s0"
  shows "P s"
proof (induction "maxAttempts - attempts s" arbitrary: s rule: less_induct)
  case less
  show ?case
  proof (cases "stops enc m (next_attempt s)")
    case True
    then show ?thesis by (rule stop)
  next
    case False
    then have "attempts s + 1 < maxAttempts"
      by (simp add: stops_def next_attempt_def)
    then have "maxAttempts - attempts (tighten (next_attempt s)) < maxAttempts - attempts s"
      by (simp add: tighten_def next_attempt_def)
    then have "P (tighten (next_attempt s))" by (rule less)
    with False show ?thesis by (rule continue)
  qed
qed


lemma tighten_attempts: "attempts (tighten s) = attempts s"
  by (simp add: tighten_def)

lemma lit_0_05_le_half: "lit_0_05 \<le> 1 / 2"
  by (simp add: lit_0_05_val)





lemma compress_settles: "fst (compress True enc m s) \<noteq> Pending"
proof (induction s rule: compress_induct_ctx[of enc m])
  case (stop s0)
  then show ?case by (simp add: compress_stop)
next
  case (continue s0)
  then show ?case by (simp add: compress_continue)
qed

lemma compress_resolved:
  "fst (compress ctx enc m s) = Resolved d \<Longrightarrow> getBase64PayloadBytes d \<le> m"
proof (cases ctx)
  case False
  then show "fst (compress ctx enc m s) = Resolved d \<Longrightarrow> ?thesis" by (simp add: compress_no_ctx)
next
  case True
  have "fst (compress True enc m s) = Resolved d \<Longrightarrow> getBase64PayloadBytes d \<le> m"
  proof (induction s rule: compress_induct_ctx[of enc m])
    case (stop s0)
    then show ?case
      by (auto simp: compress_stop payload_at_def next_attempt_def split: if_splits)
  next
    case (continue s0)
    then show ?case by (simp add: compress_continue)
  qed
  with True show "fst (compress ctx enc m s) = Resolved d \<Longrightarrow> ?thesis" by simp
qed

lemma compress_trace_length:
  "length (snd (compress ctx enc m s)) + attempts s \<le> max maxAttempts (attempts s + 1)"
proof (cases ctx)
  case False
  then show ?thesis by (simp add: compress_no_ctx)
next
  case True
  have "length (snd (compress True enc m s)) + attempts s \<le> max maxAttempts (attempts s + 1)"
  proof (induction s rule: compress_induct_ctx[of enc m])
    case (stop s0)
    then show ?case by (simp add: compress_stop)
  next
    case (continue s0)
    then have "attempts s0 + 1 < maxAttempts" by (simp add: stops_def next_attempt_def)
    with continue show ?case
      by (simp add: compress_continue tighten_attempts next_attempt_def)
  qed
  with True show ?thesis by simp
qed

lemma compress_trace_attempts:
  "i < length (snd (compress ctx enc m s)) \<Longrightarrow>
   attempts (snd (compress ctx enc m s) ! i) = attempts s + i + 1"
proof (cases ctx)
  case False
  then show "i < length (snd (compress ctx enc m s)) \<Longrightarrow> ?thesis"
    by (simp add: compress_no_ctx next_attempt_def)
next
  case True
  have "i < length (snd (compress True enc m s)) \<Longrightarrow>
        attempts (snd (compress True enc m s) ! i) = attempts s + i + 1"
  proof (induction s arbitrary: i rule: compress_induct_ctx[of enc m])
    case (stop s0)
    then show ?case by (simp add: compress_stop next_attempt_def)
  next
    case (continue s0)
    then show ?case
      by (cases i) (simp_all add: compress_continue tighten_attempts next_attempt_def)
  qed
  with True show "i < length (snd (compress ctx enc m s)) \<Longrightarrow> ?thesis" by simp
qed

lemma compress_trace_hd:
  "\<exists>tr. snd (compress ctx enc m s) = next_attempt s # tr"
  by (cases ctx; cases "stops enc m (next_attempt s)")
     (simp_all add: compress_no_ctx compress_stop compress_continue)




lemma compress_rejected_last:
  "fst (compress ctx enc m s) = Rejected e \<Longrightarrow>
   e = ImageTooLarge (payload_at enc (last (snd (compress ctx enc m s)))) m \<and>
   m < payload_at enc (last (snd (compress ctx enc m s))) \<and>
   (maxAttempts \<le> attempts (last (snd (compress ctx enc m s))) \<or>
    (width (last (snd (compress ctx enc m s))) \<le> 24 \<and>
     quality (last (snd (compress ctx enc m s))) \<le> lit_0_05))"
proof (cases ctx)
  case False
  then show "fst (compress ctx enc m s) = Rejected e \<Longrightarrow> ?thesis" by (simp add: compress_no_ctx)
next
  case True
  have "fst (compress True enc m s) = Rejected e \<Longrightarrow>
   e = ImageTooLarge (payload_at enc (last (snd (compress True enc m s)))) m \<and>
   m < payload_at enc (last (snd (compress True enc m s))) \<and>
   (maxAttempts \<le> attempts (last (snd (compress True enc m s))) \<or>
    (width (last (snd (compress True enc m s))) \<le> 24 \<and>
     quality (last (snd (compress True enc m s))) \<le> lit_0_05))"
  proof (induction s rule: compress_induct_ctx[of enc m])
    case (stop s0)
    then show ?case
      by (auto simp: compress_stop stops_def split: if_splits)
  next
    case (continue s0)
    obtain tr where "snd (compress True enc m (tighten (next_attempt s0)))
        = next_attempt (tighten (next_attempt s0)) # tr"
      using compress_trace_hd by blast
    with continue show ?case
      by (simp add: compress_continue)
  qed
  with True show "fst (compress ctx enc m s) = Rejected e \<Longrightarrow> ?thesis" by simp
qed



subsection \<open>Running the loop on an input\<close>

text \<open>
  The ten subtractions of a quality descent, as binary64 arithmetic gives them: the ninth
  result is above the literal \<^verbatim>\<open>0.05\<close>, the tenth is far below it and \<^verbatim>\<open>Math.max\<close> puts the
  literal in its place.
\<close>

lemma quality_descent:
  "double_sub (1 / 2) (3602879701896397 / 72057594037927936) = 8106479329266893 / 18014398509481984"
  "double_sub (8106479329266893 / 18014398509481984) (3602879701896397 / 72057594037927936) = 3602879701896397 / 9007199254740992"
  "double_sub (3602879701896397 / 9007199254740992) (3602879701896397 / 72057594037927936) = 6305039478318695 / 18014398509481984"
  "double_sub (6305039478318695 / 18014398509481984) (3602879701896397 / 72057594037927936) = 1351079888211149 / 4503599627370496"
  "double_sub (1351079888211149 / 4503599627370496) (3602879701896397 / 72057594037927936) = 4503599627370497 / 18014398509481984"
  "double_sub (4503599627370497 / 18014398509481984) (3602879701896397 / 72057594037927936) = 1801439850948199 / 9007199254740992"
  "double_sub (1801439850948199 / 9007199254740992) (3602879701896397 / 72057594037927936) = 2702159776422299 / 18014398509481984"
  "double_sub (2702159776422299 / 18014398509481984) (3602879701896397 / 72057594037927936) = 7205759403792799 / 72057594037927936"
  "double_sub (7205759403792799 / 72057594037927936) (3602879701896397 / 72057594037927936) = 1801439850948201 / 36028797018963968"
  "double_sub (1801439850948201 / 36028797018963968) (3602879701896397 / 72057594037927936) = 5 / 72057594037927936"
  by code_simp+

lemma shrink_examples:
  "nat \<lfloor>double_mul 1 (8106479329266893 / 9007199254740992)\<rfloor> = 0"
  "nat \<lfloor>double_mul 30 (8106479329266893 / 9007199254740992)\<rfloor> = 27"
  "nat \<lfloor>double_mul 40 (8106479329266893 / 9007199254740992)\<rfloor> = 36"
  by code_simp+

lemma payload_example:
  "getBase64PayloadBytes ''data:image/jpeg;base64,AAAA'' = 3"
  "getBase64PayloadBytes ''data:image/jpeg;base64,AA=='' = 1"
  by code_simp+

lemmas run_compress =
  compressImageToSize_def compress_continue compress_stop stops_def payload_at_def
  next_attempt_def tighten_def payload_example lit_0_05_val lit_0_9_val quality_descent
  shrink_examples maxAttempts_def three_bytes_def small_from_27_def

lemma compressImageToSize_Some:
  "compressImageToSize ctx (Some (w, h)) toDataURL maxSizeBytes =
     compress ctx toDataURL maxSizeBytes
       \<lparr>width = min w 128, height = min h 128, quality = 1 / 2, attempts = 0\<rparr>"
  by (simp add: compressImageToSize_def)


subsection \<open>The compressor's claims\<close>

text \<open>
  Claim C1. For every image and byte budget, \<^verbatim>\<open>compressImageToSize\<close> resolves with a data
  URL whose payload size, as \<^verbatim>\<open>getBase64PayloadBytes\<close> computes it, is at most the budget,
  or it rejects with an error; it never resolves with a larger payload. The promise is
  left unsettled only when the canvas gives no 2D context.
\<close>

theorem compressImageToSize_within_budget:
  "(case outcome_of ctx img toDataURL maxSizeBytes of
      Resolved dataUrl \<Rightarrow> getBase64PayloadBytes dataUrl \<le> maxSizeBytes
    | Rejected e \<Rightarrow> True
    | Pending \<Rightarrow> \<not> ctx)"
proof (cases img)
  case None
  then show ?thesis by (simp add: compressImageToSize_def)
next
  case (Some wh)
  obtain w h where wh: "wh = (w, h)" by (cases wh)
  define s where "s = \<lparr>width = min w 128, height = min h 128, quality = 1 / 2, attempts = 0\<rparr>"
  have r: "compressImageToSize ctx img toDataURL maxSizeBytes = compress ctx toDataURL maxSizeBytes s"
    by (simp add: compressImageToSize_Some Some wh s_def)
  show ?thesis
  proof (cases "fst (compress ctx toDataURL maxSizeBytes s)")
    case (Resolved d)
    then show ?thesis using compress_resolved[of ctx toDataURL maxSizeBytes s d] by (simp add: r)
  next
    case (Rejected e)
    then show ?thesis by (simp add: r)
  next
    case Pending
    then have "\<not> ctx" using compress_settles[of toDataURL maxSizeBytes s] by (cases ctx) auto
    with Pending show ?thesis unfolding r by simp
  qed
qed

text \<open>
  A 2000 by 2000 image whose first encoding, at 128 by 128 and quality 0.5, already fits
  1000 bytes: the promise resolves with it.
\<close>

theorem compressImageToSize_within_budget_witness:
  "outcome_of True (Some (2000, 2000)) three_bytes 1000 = Resolved ''data:image/jpeg;base64,AAAA''
   \<and> getBase64PayloadBytes ''data:image/jpeg;base64,AAAA'' \<le> 1000"
  using compressImageToSize_within_budget
    [where ctx = True and img = "Some (2000, 2000)" and toDataURL = three_bytes
       and maxSizeBytes = 1000]
  by (simp add: run_compress)

text \<open>
  Claim C2, on the input where the code leaves it. The claim lets the loop fail before
  the attempts run out only when width, height and quality are all at their floors. Line
  142 tests \<^verbatim>\<open>width <= 24 && quality <= 0.05\<close> and never the height: a 24 by 128 image
  that no encoding brings under the budget is rejected at the eleventh attempt of fifty,
  its height still 128.
\<close>

theorem compress_rejects_above_height_floor:
  "outcome_of True (Some (24, 128)) three_bytes 2 = Rejected (ImageTooLarge 3 2)
   \<and> map (\<lambda>s. (width s, height s, attempts s)) (explored True (Some (24, 128)) three_bytes 2)
     = map (\<lambda>n. (24, 128, n)) [1, 2, 3, 4, 5, 6, 7, 8, 9, 10, 11]
   \<and> quality (last (explored True (Some (24, 128)) three_bytes 2)) = lit_0_05"
  by (simp add: run_compress)




text \<open>
  Claim C4. For every image, a 1 by 1 image included, the loop makes at most 50 attempts
  and stops, and with a 2D context the promise is then resolved or rejected. (\<open>compress\<close>
  is a total function: its termination is proved where it is defined.)
\<close>

theorem compressImageToSize_attempt_bound:
  "length (explored ctx img toDataURL maxSizeBytes) \<le> 50
   \<and> (ctx \<longrightarrow> (\<exists>dataUrl. outcome_of ctx img toDataURL maxSizeBytes = Resolved dataUrl)
             \<or> (\<exists>e. outcome_of ctx img toDataURL maxSizeBytes = Rejected e))"
proof (cases img)
  case None
  then show ?thesis by (simp add: compressImageToSize_def)
next
  case (Some wh)
  obtain w h where wh: "wh = (w, h)" by (cases wh)
  define s where "s = \<lparr>width = min w 128, height = min h 128, quality = 1 / 2, attempts = 0\<rparr>"
  have r: "compressImageToSize ctx img toDataURL maxSizeBytes = compress ctx toDataURL maxSizeBytes s"
    by (simp add: compressImageToSize_Some Some wh s_def)
  have "length (snd (compress ctx toDataURL maxSizeBytes s)) \<le> 50"
    using compress_trace_length[of ctx toDataURL maxSizeBytes s]
    by (simp add: s_def maxAttempts_def)
  moreover have "ctx \<longrightarrow> fst (compress ctx toDataURL maxSizeBytes s) \<noteq> Pending"
    using compress_settles[of toDataURL maxSizeBytes s] by auto
  then have "ctx \<longrightarrow> (\<exists>dataUrl. fst (compress ctx toDataURL maxSizeBytes s) = Resolved dataUrl)
             \<or> (\<exists>e. fst (compress ctx toDataURL maxSizeBytes s) = Rejected e)"
    by (cases "fst (compress ctx toDataURL maxSizeBytes s)") auto
  ultimately show ?thesis unfolding r by blast
qed

text \<open>A 1 by 1 image that never fits: eleven attempts, then the rejection.\<close>

theorem compressImageToSize_attempt_bound_witness:
  "length (explored True (Some (1, 1)) three_bytes 2) = 11
   \<and> (11::nat) \<le> 50
   \<and> outcome_of True (Some (1, 1)) three_bytes 2 = Rejected (ImageTooLarge 3 2)"
  using compressImageToSize_attempt_bound
    [where ctx = True and img = "Some (1, 1)" and toDataURL = three_bytes and maxSizeBytes = 2]
  by (simp add: run_compress)

subsection \<open>Rendering\<close>

lemma encoder_calls_generate:
  "encoder_calls (fst (generateQRCode env s)) =
     (if getQRContent s = [] \<or> \<not> hasValidContent env s \<or> \<not> canvas_mounted env then []
      else [(getQRContent s,
             \<lparr>qr_width = qrSize s, qr_margin = 2,
              errorCorrectionLevel =
                (if inputType s = ImageInput \<and> imageMode s = EmbedMode then ECL_L else ECL_M),
              color_dark = qrColor s, color_light = bgColor s\<rparr>)])"
  by (simp add: generateQRCode_def Let_def)

lemma encoder_calls_download:
  "(content, options) \<in> set (encoder_calls (downloadQRCode env s)) \<Longrightarrow>
   content = getQRContent s \<and>
   options = \<lparr>qr_width = exportResolution s, qr_margin = 2,
              errorCorrectionLevel =
                (if inputType s = ImageInput \<and> imageMode s = EmbedMode then ECL_L else ECL_M),
              color_dark = qrColor s, color_light = bgColor s\<rparr>"
  by (cases "exportFormat s") (auto simp: downloadQRCode_def Let_def split: if_splits)

lemma trim_examples:
  "trim ''Hello'' = ''Hello''"
  "trim ''not a url'' = ''not a url''"
  "trim [] = []"
  by code_simp+

text \<open>
  Claim C5. Every call of the QR encoder that a render (\<^verbatim>\<open>generateQRCode\<close>) or an export
  (\<^verbatim>\<open>downloadQRCode\<close>) makes passes error-correction level L when the selection is image
  with embed mode, and M in every other case.
\<close>

theorem errorCorrectionLevel_rule:
  "\<forall>(content, options) \<in> set (encoder_calls (fst (generateQRCode env s))
                               @ encoder_calls (downloadQRCode env s)).
     errorCorrectionLevel options =
       (if inputType s = ImageInput \<and> imageMode s = EmbedMode then ECL_L else ECL_M)"
proof (clarify)
  fix content options
  assume "(content, options) \<in> set (encoder_calls (fst (generateQRCode env s))
                               @ encoder_calls (downloadQRCode env s))"
  then consider "(content, options) \<in> set (encoder_calls (fst (generateQRCode env s)))"
    | "(content, options) \<in> set (encoder_calls (downloadQRCode env s))"
    by auto
  then show "errorCorrectionLevel options =
       (if inputType s = ImageInput \<and> imageMode s = EmbedMode then ECL_L else ECL_M)"
  proof cases
    case 1
    then show ?thesis by (auto simp: encoder_calls_generate split: if_splits)
  next
    case 2
    then show ?thesis using encoder_calls_download[OF 2] by auto
  qed
qed

text \<open>
  The text "Hello" is rendered and exported at level M, an embedded image is rendered at
  level L.
\<close>

theorem errorCorrectionLevel_rule_witness:
  "encoder_calls (fst (generateQRCode example_browser (initial_state\<lparr>textContent := ''Hello''\<rparr>)))
     = [(''Hello'', \<lparr>qr_width = 300, qr_margin = 2, errorCorrectionLevel = ECL_M,
                    color_dark = ''#000000'', color_light = ''#ffffff''\<rparr>)]
   \<and> encoder_calls (fst (generateQRCode example_browser
        (initial_state\<lparr>inputType := ImageInput, imageMode := EmbedMode,
                        embedDataUrl := ''data:image/jpeg;base64,AAAA''\<rparr>)))
     = [(''data:image/jpeg;base64,AAAA'',
         \<lparr>qr_width = 300, qr_margin = 2, errorCorrectionLevel = ECL_L,
          color_dark = ''#000000'', color_light = ''#ffffff''\<rparr>)]
   \<and> encoder_calls (downloadQRCode example_browser
        (initial_state\<lparr>textContent := ''Hello'', qrCodeGenerated := True,
                        exportFormat := SVG\<rparr>))
     = [(''Hello'', \<lparr>qr_width = 300, qr_margin = 2, errorCorrectionLevel = ECL_M,
                    color_dark = ''#000000'', color_light = ''#ffffff''\<rparr>)]"
  using errorCorrectionLevel_rule
      [where env = example_browser and s = "initial_state\<lparr>textContent := ''Hello''\<rparr>"]
    errorCorrectionLevel_rule
      [where env = example_browser
         and s = "initial_state\<lparr>inputType := ImageInput, imageMode := EmbedMode,
                                 embedDataUrl := ''data:image/jpeg;base64,AAAA''\<rparr>"]
    errorCorrectionLevel_rule
      [where env = example_browser
         and s = "initial_state\<lparr>textContent := ''Hello'', qrCodeGenerated := True,
                                 exportFormat := SVG\<rparr>"]
  by (simp add: generateQRCode_def downloadQRCode_def getQRContent_def hasValidContent_def
        initial_state_def example_browser_def trim_examples Let_def)

text \<open>
  What \<^verbatim>\<open>generateQRCode\<close> does on the state it is called with: when the content is empty
  or \<^verbatim>\<open>hasValidContent\<close> fails there, it calls no encoder, clears the display canvas
  (when the canvas and its context are there) and sets \<^verbatim>\<open>qrCodeGenerated\<close> to false; it
  calls the encoder only on content that is not empty and passes \<^verbatim>\<open>hasValidContent\<close>.
\<close>

lemma generateQRCode_gated:
  "(getQRContent s = [] \<or> \<not> hasValidContent env s \<longrightarrow>
      encoder_calls (fst (generateQRCode env s)) = []
      \<and> fst (generateQRCode env s) = (if canvas_mounted env \<and> canvas_ctx env then [ClearRect] else [])
      \<and> \<not> qrCodeGenerated (snd (generateQRCode env s)))
   \<and> (encoder_calls (fst (generateQRCode env s)) \<noteq> [] \<longrightarrow>
      getQRContent s \<noteq> [] \<and> hasValidContent env s
      \<and> (\<forall>(content, options) \<in> set (encoder_calls (fst (generateQRCode env s))).
            content = getQRContent s))"
  by (auto simp: generateQRCode_def Let_def split: if_splits)


subsection \<open>Contact records\<close>

lemma split_lines_no_nl: "CHR 0x0A \<notin> set a \<Longrightarrow> split_lines a = [a]"
  by (induction a) auto




text \<open>
  Claim C10. A contact record with only the organization filled in is not valid content
  and no encoder is called for it, although its vCard text is not empty and has the
  \<^verbatim>\<open>ORG\<close> line: \<^verbatim>\<open>hasValidContent\<close> looks at name, phone and email only.
\<close>

theorem organization_only_contact_invalid:
  assumes "inputType s = ContactInput"
    and "name (contactInfo s) = []" and "phone (contactInfo s) = []"
    and "email (contactInfo s) = []" and "organization (contactInfo s) \<noteq> []"
  shows "\<not> hasValidContent env s
    \<and> encoder_calls (fst (generateQRCode env s)) = []
    \<and> getQRContent s =
        ''BEGIN:VCARD\<newline>VERSION:3.0\<newline>ORG:'' @ organization (contactInfo s)
        @ ''\<newline>END:VCARD''
    \<and> getQRContent s \<noteq> []"
proof -
  have v: "\<not> hasValidContent env s" using assms by (simp add: hasValidContent_def trim_def)
  then have "encoder_calls (fst (generateQRCode env s)) = []"
    by (simp add: generateQRCode_def Let_def)
  moreover have "getQRContent s =
        ''BEGIN:VCARD\<newline>VERSION:3.0\<newline>ORG:'' @ organization (contactInfo s)
        @ ''\<newline>END:VCARD''"
    using assms by (simp add: getQRContent_def generateVCard_def)
  ultimately show ?thesis using v by simp
qed


text \<open>The record with organization "Acme" and nothing else.\<close>

theorem organization_only_contact_invalid_witness:
  "\<not> hasValidContent example_browser
       (initial_state\<lparr>inputType := ContactInput,
          contactInfo := \<lparr>name = [], phone = [], email = [], organization = ''Acme''\<rparr>\<rparr>)
   \<and> fst (generateQRCode example_browser
       (initial_state\<lparr>inputType := ContactInput,
          contactInfo := \<lparr>name = [], phone = [], email = [], organization = ''Acme''\<rparr>\<rparr>))
     = [ClearRect]
   \<and> getQRContent
       (initial_state\<lparr>inputType := ContactInput,
          contactInfo := \<lparr>name = [], phone = [], email = [], organization = ''Acme''\<rparr>\<rparr>)
     = ''BEGIN:VCARD\<newline>VERSION:3.0\<newline>ORG:Acme\<newline>END:VCARD''"
  using organization_only_contact_invalid
      [where env = example_browser
         and s = "initial_state\<lparr>inputType := ContactInput,
            contactInfo := \<lparr>name = [], phone = [], email = [], organization = ''Acme''\<rparr>\<rparr>"]
  by (simp add: generateQRCode_def getQRContent_def hasValidContent_def generateVCard_def
        initial_state_def example_browser_def trim_examples Let_def)


subsection \<open>Mode switches and late results\<close>

lemma effects_fields:
  "imageFile (ui a) = None \<Longrightarrow>
   embedDataUrl (ui (effects env old a)) = embedDataUrl (ui a) \<and>
   imageFile (ui (effects env old a)) = None \<and>
   imagePreview (ui (effects env old a)) = imagePreview (ui a) \<and>
   inflight (effects env old a) = inflight a"
  by (simp add: effects_def Let_def)

lemma handler_keeps_payload_less:
  "\<not> selects_file ev \<Longrightarrow> \<not> settles ev \<Longrightarrow> payload_less a \<Longrightarrow> payload_less (handler env ev a)"
  by (cases ev)
     (auto simp: handler_def payload_less_def selects_file_def settles_def Let_def
        generateQRCode_def)

lemma step_keeps_payload_less:
  "\<not> selects_file ev \<Longrightarrow> \<not> settles ev \<Longrightarrow> payload_less a \<Longrightarrow> payload_less (step env ev a)"
  using handler_keeps_payload_less[of ev a env] effects_fields[of "handler env ev a" env "ui a"]
  by (simp add: step_def payload_less_def)

lemma run_keeps_payload_less:
  "\<forall>ev \<in> set evs. \<not> selects_file ev \<and> \<not> settles ev \<Longrightarrow> payload_less a \<Longrightarrow>
   payload_less (run env evs a)"
  by (induction evs arbitrary: a) (simp_all add: step_keeps_payload_less)

lemma step_ClickLinkMode:
  "embedDataUrl (ui (step env ClickLinkMode a)) = [] \<and>
   imageFile (ui (step env ClickLinkMode a)) = None \<and>
   imagePreview (ui (step env ClickLinkMode a)) = [] \<and>
   imageMode (ui (step env ClickLinkMode a)) = LinkMode"
  using effects_fields[of "handler env ClickLinkMode a" env "ui a"]
  apply (simp add: step_def)
  apply (simp add: handler_def effects_def Let_def)
  done

text \<open>
  Claim C8, as the code has it. Clicking "Link to URL" clears the embed payload, the
  selected file and the preview (\<open>a1\<close> is the page after the click). From then on, through
  any events in which the user selects no file and no compression settles, the payload
  stays empty, no file is selected, and in embed mode the content is not valid (\<open>a2\<close>).
\<close>

theorem switch_to_link_discards_payload:
  fixes env a evs
  defines "a1 \<equiv> step env ClickLinkMode a"
    and "a2 \<equiv> run env evs (step env ClickLinkMode a)"
  assumes "\<forall>ev \<in> set evs. \<not> selects_file ev \<and> \<not> settles ev"
  shows "embedDataUrl (ui a1) = [] \<and> imageFile (ui a1) = None \<and> imagePreview (ui a1) = []
    \<and> embedDataUrl (ui a2) = [] \<and> imageFile (ui a2) = None
    \<and> (inputType (ui a2) = ImageInput \<and> imageMode (ui a2) = EmbedMode
         \<longrightarrow> \<not> hasValidContent env (ui a2))"
proof -
  have "payload_less a1"
    using step_ClickLinkMode[of env a] by (simp add: payload_less_def a1_def)
  from run_keeps_payload_less[OF assms(3) this]
  have "payload_less a2" by (simp add: a1_def a2_def)
  then show ?thesis
    using step_ClickLinkMode[of env a]
    by (auto simp: payload_less_def hasValidContent_def a1_def)
qed

lemma payload_B: "getBase64PayloadBytes ''data:image/jpeg;base64,BBBB'' = 3"
  by code_simp

lemma compression_examples:
  "compression_of example_browser fileA = Resolved ''data:image/jpeg;base64,AAAA''"
  "compression_of example_browser fileB = Resolved ''data:image/jpeg;base64,BBBB''"
  by (simp_all add: compression_of_def example_browser_def fileA_def fileB_def run_compress
        payload_B)

lemmas run_events =
  step_def handler_def effects_def start_processing_def processImageFile_begin_def
  processImageFile_resume_def enabled_def generateQRCode_def getQRContent_def
  hasValidContent_def url_error_def startsWith_def initial_app_def initial_state_def
  example_browser_def fileA_def fileB_def trim_examples Let_def embed_with_payload_def
  compressing_A_and_B_def late_switch_def out_of_order_def

text \<open>
  From \<open>embed_with_payload\<close>: the click clears payload, file and preview, and after the
  switch back to embed mode the payload is empty and the content not valid.
\<close>

theorem switch_to_link_discards_payload_witness:
  "embedDataUrl (ui embed_with_payload) = ''data:image/jpeg;base64,AAAA''
   \<and> embedDataUrl (ui (step example_browser ClickLinkMode embed_with_payload)) = []
   \<and> imageFile (ui (step example_browser ClickLinkMode embed_with_payload)) = None
   \<and> imagePreview (ui (step example_browser ClickLinkMode embed_with_payload)) = []
   \<and> imageMode (ui (run example_browser [ClickEmbedMode]
                      (step example_browser ClickLinkMode embed_with_payload))) = EmbedMode
   \<and> embedDataUrl (ui (run example_browser [ClickEmbedMode]
                         (step example_browser ClickLinkMode embed_with_payload))) = []
   \<and> \<not> hasValidContent example_browser
         (ui (run example_browser [ClickEmbedMode]
                (step example_browser ClickLinkMode embed_with_payload)))"
  using switch_to_link_discards_payload
    [where evs = "[ClickEmbedMode]" and env = example_browser and a = embed_with_payload]
  by (simp add: run_events selects_file_def settles_def)

text \<open>
  Claim C8 as stated fails on \<open>late_switch\<close>: every event can happen when it does, no file
  is selected after the click on "Link to URL", and at the end, back in embed mode, the
  payload of A is the embed payload, the content is valid and the QR code is drawn.
\<close>

theorem switch_back_offers_late_payload:
  "feasible example_browser late_switch initial_app
   \<and> drop 3 late_switch = [ClickLinkMode, CompressionSettles fileA, ClickEmbedMode]
   \<and> imageMode (ui (run example_browser late_switch initial_app)) = EmbedMode
   \<and> imageFile (ui (run example_browser late_switch initial_app)) = None
   \<and> embedDataUrl (ui (run example_browser late_switch initial_app))
       = ''data:image/jpeg;base64,AAAA''
   \<and> hasValidContent example_browser (ui (run example_browser late_switch initial_app))
   \<and> qrCodeGenerated (ui (run example_browser late_switch initial_app))"
  using compression_examples
  by (simp add: run_events)

lemma effects_same_file:
  "imageMode (ui a) = imageMode old \<Longrightarrow> imageFile (ui a) = imageFile old \<Longrightarrow>
   embedDataUrl (ui (effects env old a)) = embedDataUrl (ui a) \<and>
   isCompressing (ui (effects env old a)) = isCompressing (ui a) \<and>
   imageFileError (ui (effects env old a)) = imageFileError (ui a) \<and>
   imageFile (ui (effects env old a)) = imageFile (ui a) \<and>
   imageMode (ui (effects env old a)) = imageMode (ui a) \<and>
   inflight (effects env old a) = inflight a"
  by (simp add: effects_def Let_def split: option.splits)

text \<open>
  Claim C9, as the code has it. When a compression settles (\<open>a'\<close> is the page after it),
  its result is applied whatever file is selected and whatever the mode: a resolved data
  URL becomes the embed payload, a rejection empties the payload and stores its message,
  and in both cases \<^verbatim>\<open>isCompressing\<close> becomes false. The selected file and the mode are
  neither read nor changed.
\<close>

theorem late_result_is_applied:
  fixes env f a
  defines "a' \<equiv> step env (CompressionSettles f) a"
  shows "(\<forall>d. compression_of env f = Resolved d \<longrightarrow>
            embedDataUrl (ui a') = d \<and> \<not> isCompressing (ui a'))
       \<and> (\<forall>e. compression_of env f = Rejected e \<longrightarrow>
            embedDataUrl (ui a') = [] \<and> imageFileError (ui a') = error_message e
            \<and> \<not> isCompressing (ui a'))
       \<and> imageFile (ui a') = imageFile (ui a) \<and> imageMode (ui a') = imageMode (ui a)"
proof -
  define b where "b = handler env (CompressionSettles f) a"
  have h: "imageMode (ui b) = imageMode (ui a)" "imageFile (ui b) = imageFile (ui a)"
    by (simp_all add: b_def handler_def processImageFile_resume_def Let_def split: promise.splits)
  have r: "\<forall>d. compression_of env f = Resolved d \<longrightarrow>
      embedDataUrl (ui b) = d \<and> \<not> isCompressing (ui b)"
    by (simp add: b_def handler_def processImageFile_resume_def Let_def)
  have j: "\<forall>e. compression_of env f = Rejected e \<longrightarrow>
      embedDataUrl (ui b) = [] \<and> imageFileError (ui b) = error_message e
      \<and> \<not> isCompressing (ui b)"
    by (simp add: b_def handler_def processImageFile_resume_def Let_def)
  have s: "a' = effects env (ui a) b"
    by (simp add: step_def b_def a'_def)
  show ?thesis
    unfolding s using effects_same_file[OF h, of env] h r j by simp
qed

text \<open>
  From \<open>compressing_A_and_B\<close>: file B is selected when A's result arrives, and A's data
  URL becomes the embed payload.
\<close>

theorem late_result_is_applied_witness:
  "compression_of example_browser fileA = Resolved ''data:image/jpeg;base64,AAAA''
   \<and> imageFile (ui compressing_A_and_B) = Some fileB
   \<and> embedDataUrl (ui (step example_browser (CompressionSettles fileA) compressing_A_and_B))
       = ''data:image/jpeg;base64,AAAA''
   \<and> \<not> isCompressing (ui (step example_browser (CompressionSettles fileA) compressing_A_and_B))
   \<and> imageFile (ui (step example_browser (CompressionSettles fileA) compressing_A_and_B))
       = Some fileB"
  using late_result_is_applied
    [where env = example_browser and f = fileA and a = compressing_A_and_B]
    compression_examples
  by (simp add: run_events)

text \<open>
  Claim C9 as stated fails on \<open>out_of_order\<close>: every event can happen when it does; at the
  end nothing is in flight, file B is selected, and the embed payload is the encoding of
  A and not of B, offered as valid content.
\<close>

theorem stale_result_is_stored:
  "feasible example_browser out_of_order initial_app
   \<and> inflight (run example_browser out_of_order initial_app) = []
   \<and> imageFile (ui (run example_browser out_of_order initial_app)) = Some fileB
   \<and> compression_of example_browser fileB = Resolved ''data:image/jpeg;base64,BBBB''
   \<and> compression_of example_browser fileA = Resolved ''data:image/jpeg;base64,AAAA''
   \<and> embedDataUrl (ui (run example_browser out_of_order initial_app))
       = ''data:image/jpeg;base64,AAAA''
   \<and> hasValidContent example_browser (ui (run example_browser out_of_order initial_app))"
  using compression_examples
  by (simp add: run_events)

subsection \<open>The render hook and the image URL\<close>

text \<open>
  Claim C7, on the input where the code leaves it. The claim lets the encoder be called
  only for content that is valid by the rule of its variant, and an image link is valid
  when it parses as a URL. \<^verbatim>\<open>hasValidContent\<close> does not parse the image URL (as it does
  for the URL variant, line 267): it reads \<^verbatim>\<open>imageUrlError\<close>, which the hook of lines 436
  to 441 writes after the render hook has run, and which is no dependency of the render
  hook. On the image page in link mode the user types "not a url": the render hook runs
  with the error still empty and calls the encoder on "not a url"; then the error is
  stored, the content is not valid any more, and the QR code stays drawn.
\<close>

theorem render_encodes_unparsed_image_url:
  "feasible example_browser [ClickType ImageInput, TypeImageUrl ''not a url''] initial_app
   \<and> \<not> url_parses example_browser ''not a url''
   \<and> render_hook example_browser (ui image_link_page)
        (ui (handler example_browser (TypeImageUrl ''not a url'') image_link_page))
     = [ToCanvas DisplayCanvas ''not a url''
          \<lparr>qr_width = 300, qr_margin = 2, errorCorrectionLevel = ECL_M,
           color_dark = ''#000000'', color_light = ''#ffffff''\<rparr>]
   \<and> imageUrlError (ui (step example_browser (TypeImageUrl ''not a url'') image_link_page))
     = ''Please enter a valid URL''
   \<and> \<not> hasValidContent example_browser
         (ui (step example_browser (TypeImageUrl ''not a url'') image_link_page))
   \<and> qrCodeGenerated (ui (step example_browser (TypeImageUrl ''not a url'') image_link_page))"
  by (simp add: run_events render_hook_def image_link_page_def)

end
